theory Spec2Isabelle
  imports Main
begin

section \<open>LicenseGuard UI: file selection, form validation and the streamed transcript\<close>

text \<open>
  The development embeds the event handlers of the React components and the request
  functions of \<^verbatim>\<open>services/api.ts\<close>. A component's \<^verbatim>\<open>useState\<close> cells are the
  fields of a record; a handler is a function from the state before the event to the
  state after it. JavaScript strings are modelled by \<^typ>\<open>string\<close>, one \<^typ>\<open>char\<close>
  standing for one code unit, so that \<^term>\<open>length\<close> is the \<^verbatim>\<open>.length\<close> of the
  source.
\<close>

subsection \<open>The browser's File object\<close>

text \<open>\<^verbatim>\<open>File.name\<close>, \<^verbatim>\<open>File.size\<close> (a byte count) and \<^verbatim>\<open>File.type\<close> (the declared MIME type).\<close>

record File =
  name :: string
  fsize :: nat
  ftype :: string

text \<open>
  \<^verbatim>\<open>String.prototype.endsWith(searchString)\<close> with the default end position: the
  search string is compared with the last \<^verbatim>\<open>searchString.length\<close> code units; a search
  string longer than the subject never matches.
\<close>

definition endsWith :: "string \<Rightarrow> string \<Rightarrow> bool" where
  "endsWith s searchString =
     (let len = length s; searchLength = length searchString
      in if len < searchLength then False
         else drop (len - searchLength) s = searchString)"

subsection \<open>The FileUpload component (components/ui/file-upload.tsx)\<close>

definition MAX_FILE_SIZE :: nat where
  "MAX_FILE_SIZE = 1 * 1024 * 1024"

text \<open>The component's state cells: \<^verbatim>\<open>file\<close>, \<^verbatim>\<open>error\<close> and the dragging flag.\<close>

record FileUpload_state =
  fu_file :: "File option"
  fu_error :: "string option"
  fu_isDragging :: bool

text \<open>
  The \<^verbatim>\<open>onChange\<close> prop is optional. The caller's state is the type \<open>'p\<close>; a callback
  transforms it. \<^verbatim>\<open>onChange?.(arg)\<close> does nothing when the prop is absent.
\<close>

type_synonym 'p onChange_prop = "(File option \<Rightarrow> 'p \<Rightarrow> 'p) option"

definition call_onChange :: "'p onChange_prop \<Rightarrow> File option \<Rightarrow> 'p \<Rightarrow> 'p" where
  "call_onChange onChange arg p = (case onChange of None \<Rightarrow> p | Some cb \<Rightarrow> cb arg p)"

text \<open>
  \<^verbatim>\<open>handleFileChange(selectedFile)\<close>: nothing happens for \<^verbatim>\<open>null\<close>; otherwise the MIME
  type, the extension and the size are tested in this order, each failure setting the
  error, clearing the file, calling \<^verbatim>\<open>onChange?.(null)\<close> and returning.
\<close>

definition FileUpload_handleFileChange ::
  "'p onChange_prop \<Rightarrow> File option \<Rightarrow> FileUpload_state \<times> 'p \<Rightarrow> FileUpload_state \<times> 'p" where
  "FileUpload_handleFileChange onChange selectedFile sp =
     (case selectedFile of
        None \<Rightarrow> sp
      | Some f \<Rightarrow>
          (case sp of (s, p) \<Rightarrow>
            if ftype f \<noteq> ''text/plain'' then
              (s\<lparr>fu_error := Some ''Only text files are allowed (MIME type: text/plain)'',
                 fu_file := None\<rparr>,
               call_onChange onChange None p)
            else if \<not> endsWith (name f) ''.txt'' then
              (s\<lparr>fu_error := Some ''Only .txt files are allowed'', fu_file := None\<rparr>,
               call_onChange onChange None p)
            else if fsize f > MAX_FILE_SIZE then
              (s\<lparr>fu_error := Some ''File size must not exceed 1 MB'', fu_file := None\<rparr>,
               call_onChange onChange None p)
            else
              (s\<lparr>fu_error := None, fu_file := Some f\<rparr>,
               call_onChange onChange (Some f) p)))"

text \<open>
  \<^verbatim>\<open>handleInputChange(e)\<close>: \<^verbatim>\<open>e.target.files?.[0] || null\<close>. The event's file list is
  absent (\<^verbatim>\<open>files\<close> is \<^verbatim>\<open>null\<close>) or a list; an empty list has no first element.
\<close>

definition first_file_or_null :: "File list option \<Rightarrow> File option" where
  "first_file_or_null files =
     (case files of None \<Rightarrow> None | Some [] \<Rightarrow> None | Some (f # _) \<Rightarrow> Some f)"

definition FileUpload_handleInputChange ::
  "'p onChange_prop \<Rightarrow> File list option \<Rightarrow> FileUpload_state \<times> 'p \<Rightarrow> FileUpload_state \<times> 'p" where
  "FileUpload_handleInputChange onChange files sp =
     FileUpload_handleFileChange onChange (first_file_or_null files) sp"

text \<open>\<^verbatim>\<open>handleDrop(e)\<close>: the dragging flag is lowered, then the first dropped file is handled.\<close>

definition FileUpload_handleDrop ::
  "'p onChange_prop \<Rightarrow> File list option \<Rightarrow> FileUpload_state \<times> 'p \<Rightarrow> FileUpload_state \<times> 'p" where
  "FileUpload_handleDrop onChange files sp =
     (case sp of (s, p) \<Rightarrow>
        FileUpload_handleFileChange onChange (first_file_or_null files)
          (s\<lparr>fu_isDragging := False\<rparr>, p))"

text \<open>\<^verbatim>\<open>handleRemoveFile()\<close>: file and error are cleared and the caller is told \<^verbatim>\<open>null\<close>.\<close>

definition FileUpload_handleRemoveFile ::
  "'p onChange_prop \<Rightarrow> FileUpload_state \<times> 'p \<Rightarrow> FileUpload_state \<times> 'p" where
  "FileUpload_handleRemoveFile onChange sp =
     (case sp of (s, p) \<Rightarrow>
        (s\<lparr>fu_file := None, fu_error := None\<rparr>, call_onChange onChange None p))"

text \<open>
  A caller that only records the arguments it is called with, in call order. With it as
  the \<^verbatim>\<open>onChange\<close> prop the caller's state is the trace of the calls.
\<close>

definition record_call :: "File option \<Rightarrow> File option list \<Rightarrow> File option list" where
  "record_call arg calls = calls @ [arg]"

text \<open>The three rejection reasons, as the handler spells them.\<close>

definition MIME_reason :: string where
  "MIME_reason = ''Only text files are allowed (MIME type: text/plain)''"

definition extension_reason :: string where
  "extension_reason = ''Only .txt files are allowed''"

definition size_reason :: string where
  "size_reason = ''File size must not exceed 1 MB''"

subsection \<open>Requests, responses and the streamed body (services/api.ts)\<close>

text \<open>
  What a JavaScript \<^verbatim>\<open>throw\<close> or a rejected promise carries: an \<^verbatim>\<open>Error\<close> object
  with its message, or some other value.
\<close>

datatype thrown = JsError string | OtherThrown

datatype form_value = Text string | FileValue File

datatype request_body =
    UrlEncoded "(string \<times> string) list"
  | Json "(string \<times> string) list"
  | Multipart "(string \<times> form_value) list"

record request =
  url :: string
  http_method :: string
  headers :: "(string \<times> string) list"
  body :: request_body

text \<open>
  One \<^verbatim>\<open>await reader.read()\<close> of the decoded body stream resolves with a text chunk,
  resolves with \<^verbatim>\<open>done\<close>, or rejects.
\<close>

datatype read_result = Chunk string | Done | ReadFailed thrown

text \<open>
  A response: \<^verbatim>\<open>response.ok\<close>, the text \<^verbatim>\<open>response.text()\<close> gives, the object
  \<^verbatim>\<open>response.json()\<close> gives (absent when the body is not JSON, then \<^verbatim>\<open>json()\<close>
  rejects) and \<^verbatim>\<open>response.body\<close>: absent, or the results of the successive reads of
  its decoded stream that have been resolved so far.
\<close>

record response =
  ok :: bool
  text_of :: string
  json_of :: "(string \<times> string) list option"
  stream_of :: "read_result list option"

datatype fetch_result = Rejected thrown | Resolved response

text \<open>
  The surroundings of the page: the two base URLs built from the Vite environment, the
  \<^verbatim>\<open>authToken\<close> entry of local storage and the behaviour of the network.
\<close>

record env =
  API_URL :: string
  AGENT_URL :: string
  authToken :: "string option"
  fetch :: "request \<Rightarrow> fetch_result"

text \<open>How an awaited call ends; \<open>Pending\<close> when it is still waiting for the next read.\<close>

datatype 'a outcome = Returned 'a | Threw thrown | Pending

text \<open>
  \<^verbatim>\<open>loginUser(email, password)\<close>: the result is paired with the requests that were sent.
  When the body is not JSON, \<^verbatim>\<open>response.json()\<close> rejects with a syntax error; its message
  is never read by the pages.
\<close>

definition loginUser_request :: "env \<Rightarrow> string \<Rightarrow> string \<Rightarrow> request" where
  "loginUser_request e email password =
     \<lparr>url = API_URL e @ ''/users/token'', http_method = ''POST'', headers = [],
      body = UrlEncoded [(''username'', email), (''password'', password)]\<rparr>"

definition loginUser ::
  "env \<Rightarrow> string \<Rightarrow> string \<Rightarrow> (string \<times> string) list outcome \<times> request list" where
  "loginUser e email password =
     (let req = loginUser_request e email password
      in (case fetch e req of
            Rejected t \<Rightarrow> (Threw t, [req])
          | Resolved resp \<Rightarrow>
              (if \<not> ok resp then (Threw (JsError ''Login failed''), [req])
               else (case json_of resp of
                       None \<Rightarrow> (Threw (JsError ''Unexpected token''), [req])
                     | Some data \<Rightarrow> (Returned data, [req])))))"

text \<open>\<^verbatim>\<open>registerUser(email, password)\<close>.\<close>

definition registerUser_request :: "env \<Rightarrow> string \<Rightarrow> string \<Rightarrow> request" where
  "registerUser_request e email password =
     \<lparr>url = API_URL e @ ''/users'', http_method = ''POST'',
      headers = [(''Content-Type'', ''application/json'')],
      body = Json [(''username'', email), (''password'', password)]\<rparr>"

definition registerUser ::
  "env \<Rightarrow> string \<Rightarrow> string \<Rightarrow> (string \<times> string) list outcome \<times> request list" where
  "registerUser e email password =
     (let req = registerUser_request e email password
      in (case fetch e req of
            Rejected t \<Rightarrow> (Threw t, [req])
          | Resolved resp \<Rightarrow>
              (if \<not> ok resp then (Threw (JsError ''Registration failed''), [req])
               else (case json_of resp of
                       None \<Rightarrow> (Threw (JsError ''Unexpected token''), [req])
                     | Some data \<Rightarrow> (Returned data, [req])))))"

text \<open>
  The \<^verbatim>\<open>while (true)\<close> loop of \<^verbatim>\<open>getAnalysisStream\<close>, run over the reads resolved so
  far: a chunk is passed to \<^verbatim>\<open>onChunk\<close> and the loop reads again, \<^verbatim>\<open>done\<close> leaves the
  loop, a rejected read throws. When the reads are used up the loop is still awaiting the
  next one. \<^verbatim>\<open>onChunk\<close> transforms the caller's state \<open>'s\<close>.
\<close>

fun read_loop :: "read_result list \<Rightarrow> (string \<Rightarrow> 's \<Rightarrow> 's) \<Rightarrow> 's \<Rightarrow> unit outcome \<times> 's" where
  "read_loop [] onChunk s = (Pending, s)"
| "read_loop (Done # rs) onChunk s = (Returned (), s)"
| "read_loop (Chunk v # rs) onChunk s = read_loop rs onChunk (onChunk v s)"
| "read_loop (ReadFailed t # rs) onChunk s = (Threw t, s)"

text \<open>
  \<^verbatim>\<open>getAnalysisStream(projectName, file, onChunk)\<close>. \<^verbatim>\<open>!token\<close> holds for \<^verbatim>\<open>null\<close> and
  for the empty string. The result is the outcome, the requests sent and the caller's
  state after the \<^verbatim>\<open>onChunk\<close> calls.
\<close>

definition analysis_request :: "env \<Rightarrow> string \<Rightarrow> string \<Rightarrow> File \<Rightarrow> request" where
  "analysis_request e token projectName file =
     \<lparr>url = AGENT_URL e @ ''/generate/report'', http_method = ''POST'',
      headers = [(''Authorization'', ''Bearer '' @ token), (''Accept'', ''text/plain'')],
      body = Multipart [(''project_name'', Text projectName),
                        (''requirements_file'', FileValue file)]\<rparr>"

definition getAnalysisStream ::
  "env \<Rightarrow> string \<Rightarrow> File \<Rightarrow> (string \<Rightarrow> 's \<Rightarrow> 's) \<Rightarrow> 's \<Rightarrow> unit outcome \<times> request list \<times> 's" where
  "getAnalysisStream e projectName file onChunk s =
     (case authToken e of
        None \<Rightarrow> (Threw (JsError ''Not authenticated. Please log in.''), [], s)
      | Some token \<Rightarrow>
          (if token = [] then (Threw (JsError ''Not authenticated. Please log in.''), [], s)
           else
             (let req = analysis_request e token projectName file
              in (case fetch e req of
                    Rejected t \<Rightarrow> (Threw t, [req], s)
                  | Resolved resp \<Rightarrow>
                      (if \<not> ok resp then
                         (Threw (JsError (''Analysis request failed: '' @ text_of resp)), [req], s)
                       else
                         (case stream_of resp of
                            None \<Rightarrow> (Threw (JsError ''No response body from stream''), [req], s)
                          | Some reads \<Rightarrow>
                              (case read_loop reads onChunk s of
                                 (out, s') \<Rightarrow> (out, [req], s'))))))))"

text \<open>A caller of \<^verbatim>\<open>getAnalysisStream\<close> that only records the chunks it is given, in order.\<close>

definition record_chunk :: "string \<Rightarrow> string list \<Rightarrow> string list" where
  "record_chunk chunk chunks = chunks @ [chunk]"

text \<open>The fragments \<^verbatim>\<open>getAnalysisStream\<close> has delivered to its callback so far.\<close>

definition delivered :: "env \<Rightarrow> string \<Rightarrow> File \<Rightarrow> string list" where
  "delivered e pn f = snd (snd (getAnalysisStream e pn f record_chunk []))"

text \<open>
  The fragments among the reads resolved so far, in arrival order: the chunks read
  before the stream is done or a read fails.
\<close>

fun fragments :: "read_result list \<Rightarrow> string list" where
  "fragments [] = []"
| "fragments (Chunk v # rs) = v # fragments rs"
| "fragments (Done # rs) = []"
| "fragments (ReadFailed t # rs) = []"

text \<open>How the call of \<^verbatim>\<open>getAnalysisStream\<close> has ended, or that it has not yet.\<close>

definition stream_outcome :: "env \<Rightarrow> string \<Rightarrow> File \<Rightarrow> unit outcome" where
  "stream_outcome e pn f = fst (getAnalysisStream e pn f record_chunk [])"

subsection \<open>The main page (pages/MainPage.tsx)\<close>

text \<open>
  The state cells \<^verbatim>\<open>projectName\<close>, \<^verbatim>\<open>file\<close>, \<^verbatim>\<open>analysisResult\<close>, \<^verbatim>\<open>isLoading\<close>
  and \<^verbatim>\<open>error\<close>.
\<close>

record MainPage_state =
  projectName :: string
  mp_file :: "File option"
  analysisResult :: string
  isLoading :: bool
  mp_error :: "string option"

text \<open>\<^verbatim>\<open>handleFileChange(selectedFile)\<close>, the \<^verbatim>\<open>onChange\<close> prop given to FileUpload.\<close>

definition MainPage_handleFileChange :: "File option \<Rightarrow> MainPage_state \<Rightarrow> MainPage_state" where
  "MainPage_handleFileChange selectedFile st =
     st\<lparr>mp_file := selectedFile, analysisResult := [], mp_error := None\<rparr>"

text \<open>The callback passed to \<^verbatim>\<open>getAnalysisStream\<close>: \<^verbatim>\<open>setAnalysisResult(prev => prev + chunk)\<close>.\<close>

definition append_chunk :: "string \<Rightarrow> MainPage_state \<Rightarrow> MainPage_state" where
  "append_chunk chunk st = st\<lparr>analysisResult := analysisResult st @ chunk\<rparr>"

text \<open>\<^verbatim>\<open>err instanceof Error ? err.message : "An unknown error occurred."\<close>\<close>

definition error_text :: "thrown \<Rightarrow> string" where
  "error_text t = (case t of JsError msg \<Rightarrow> msg | OtherThrown \<Rightarrow> ''An unknown error occurred.'')"

text \<open>
  \<^verbatim>\<open>handleSubmit()\<close>: the state of the page and the requests sent. While the call of
  \<^verbatim>\<open>getAnalysisStream\<close> is pending neither \<^verbatim>\<open>catch\<close> nor \<^verbatim>\<open>finally\<close> has run.
\<close>

definition MainPage_handleSubmit :: "env \<Rightarrow> MainPage_state \<Rightarrow> MainPage_state \<times> request list" where
  "MainPage_handleSubmit e st =
     (case mp_file st of
        None \<Rightarrow>
          (st\<lparr>mp_error := Some ''Please provide a project name and a requirements.txt file.''\<rparr>, [])
      | Some f \<Rightarrow>
          if projectName st = [] then
            (st\<lparr>mp_error := Some ''Please provide a project name and a requirements.txt file.''\<rparr>, [])
          else
            (case getAnalysisStream e (projectName st) f append_chunk
                    (st\<lparr>isLoading := True, mp_error := None, analysisResult := []\<rparr>) of
               (Pending, reqs, st') \<Rightarrow> (st', reqs)
             | (Returned u, reqs, st') \<Rightarrow> (st'\<lparr>isLoading := False\<rparr>, reqs)
             | (Threw t, reqs, st') \<Rightarrow>
                 (st'\<lparr>mp_error := Some (error_text t), isLoading := False\<rparr>, reqs)))"

text \<open>
  The phases of the analysis page named by the specification, read off the page's
  rendering conditions: the spinner panel is shown for \<^verbatim>\<open>isLoading && !analysisResult\<close>,
  the report with its badge for a non-empty transcript while loading, the error banner
  for a non-null error.
\<close>

datatype phase = Idle | Submitting_no_data_yet | Streaming_with_partial_data | Finished | Failed

definition phase_of :: "MainPage_state \<Rightarrow> phase" where
  "phase_of st =
     (if isLoading st then
        (if analysisResult st = [] then Submitting_no_data_yet else Streaming_with_partial_data)
      else if mp_error st \<noteq> None then Failed
      else if analysisResult st \<noteq> [] then Finished
      else Idle)"

subsection \<open>The form schemas (lib/validators.ts)\<close>

text \<open>
  The schemas are built with the zod library. A zod string schema holds its checks in
  the order in which they were chained and runs them in that order on the input: a
  \<^verbatim>\<open>min\<close> or \<^verbatim>\<open>max\<close> check compares the \<^verbatim>\<open>.length\<close> of the data as it is at that
  point and adds an issue with its message, without stopping; \<^verbatim>\<open>trim\<close> replaces the data
  by the trimmed data for the checks that follow and for the parsed output.
\<close>

datatype string_check = Min nat string | Max nat string | Trim

text \<open>
  The white space and line terminators \<^verbatim>\<open>String.prototype.trim\<close> removes, as far as
  they are code units below 256: tab, line feed, vertical tab, form feed, carriage return,
  space and no-break space.
\<close>

definition isWhiteSpace :: "char \<Rightarrow> bool" where
  "isWhiteSpace c =
     (c \<in> set [CHR 0x09, CHR 0x0A, CHR 0x0B, CHR 0x0C, CHR 0x0D, CHR 0x20, CHR 0xA0])"

definition trim :: "string \<Rightarrow> string" where
  "trim s = rev (dropWhile isWhiteSpace (rev (dropWhile isWhiteSpace s)))"

record issue =
  path :: "string list"
  message :: string

text \<open>The checks of a string schema, run in order on the data, the issues accumulating.\<close>

fun run_checks ::
  "string_check list \<Rightarrow> string list \<Rightarrow> string \<Rightarrow> issue list \<Rightarrow> string \<times> issue list" where
  "run_checks [] pth d issues = (d, issues)"
| "run_checks (Min n msg # cs) pth d issues =
     run_checks cs pth d
       (if length d < n then issues @ [\<lparr>path = pth, message = msg\<rparr>] else issues)"
| "run_checks (Max n msg # cs) pth d issues =
     run_checks cs pth d
       (if length d > n then issues @ [\<lparr>path = pth, message = msg\<rparr>] else issues)"
| "run_checks (Trim # cs) pth d issues = run_checks cs pth (trim d) issues"

text \<open>\<^verbatim>\<open>z.string().min(4, ...).max(100, ...).trim()\<close>\<close>

definition usernameSchema :: "string_check list" where
  "usernameSchema =
     [Min 4 ''Username must be at least 4 characters.'',
      Max 100 ''Username must not exceed 100 characters.'',
      Trim]"

text \<open>\<^verbatim>\<open>z.string().min(4, ...)\<close>\<close>

definition passwordSchema :: "string_check list" where
  "passwordSchema = [Min 4 ''Password must be at least 4 characters.'']"

text \<open>
  \<^verbatim>\<open>loginSchema.safeParse({ username, password })\<close>: the fields are parsed in the order
  of the object's keys; the parse succeeds, with the parsed fields, when no issue was
  added, and fails with the issues otherwise.
\<close>

definition loginSchema_safeParse :: "string \<Rightarrow> string \<Rightarrow> issue list + string \<times> string" where
  "loginSchema_safeParse username password =
     (case run_checks usernameSchema [''username''] username [] of
        (u, issues1) \<Rightarrow>
          (case run_checks passwordSchema [''password''] password issues1 of
             (p, issues2) \<Rightarrow> if issues2 = [] then Inr (u, p) else Inl issues2))"

text \<open>
  \<^verbatim>\<open>signUpSchema.safeParse({ username, password, confirmPassword })\<close>: the three fields,
  then the refinement \<^verbatim>\<open>data.password === data.confirmPassword\<close>, whose issue is put on
  the path \<^verbatim>\<open>confirmPassword\<close>.
\<close>

definition signUpSchema_safeParse ::
  "string \<Rightarrow> string \<Rightarrow> string \<Rightarrow> issue list + string \<times> string \<times> string" where
  "signUpSchema_safeParse username password confirmPassword =
     (case run_checks usernameSchema [''username''] username [] of
        (u, issues1) \<Rightarrow>
          (case run_checks passwordSchema [''password''] password issues1 of
             (p, issues2) \<Rightarrow>
               (case run_checks passwordSchema [''confirmPassword''] confirmPassword issues2 of
                  (c, issues3) \<Rightarrow>
                    (let issues4 =
                           (if p = c then issues3
                            else issues3 @ [\<lparr>path = [''confirmPassword''],
                                             message = ''Passwords do not match''\<rparr>])
                     in if issues4 = [] then Inr (u, p, c) else Inl issues4))))"

subsection \<open>What a page handler does to the world\<close>

text \<open>
  A request sent with \<^verbatim>\<open>fetch\<close>, a call of the session store's \<^verbatim>\<open>login\<close> with the
  value of \<^verbatim>\<open>data.access_token\<close> (absent when the object has no such field), or a call
  of \<^verbatim>\<open>navigate\<close>.
\<close>

datatype effect = Fetch request | Login "string option" | Navigate string

definition network_calls :: "effect list \<Rightarrow> request list" where
  "network_calls effects = concat (map (\<lambda>x. case x of Fetch r \<Rightarrow> [r] | _ \<Rightarrow> []) effects)"

subsection \<open>The login page (pages/LoginPage.tsx)\<close>

text \<open>The state cells \<^verbatim>\<open>email\<close>, \<^verbatim>\<open>password\<close>, \<^verbatim>\<open>error\<close> and \<^verbatim>\<open>isSubmitting\<close>.\<close>

record LoginPage_state =
  lp_email :: string
  lp_password :: string
  lp_error :: string
  lp_isSubmitting :: bool

text \<open>
  \<^verbatim>\<open>handleSubmit(e)\<close>. The error is cleared, the two fields are validated and the first
  issue's message is shown on failure; only then \<^verbatim>\<open>loginUser\<close> is called, with the
  fields as typed. \<^verbatim>\<open>issues[0].message\<close> on an empty issue list would throw before
  anything else is done.
\<close>

definition LoginPage_handleSubmit :: "env \<Rightarrow> LoginPage_state \<Rightarrow> LoginPage_state \<times> effect list" where
  "LoginPage_handleSubmit e st =
     (let st1 = st\<lparr>lp_error := []\<rparr>
      in (case loginSchema_safeParse (lp_email st) (lp_password st) of
            Inl issues \<Rightarrow>
              (case issues of
                 [] \<Rightarrow> (st1, [])
               | firstError # _ \<Rightarrow> (st1\<lparr>lp_error := message firstError\<rparr>, []))
          | Inr parsed \<Rightarrow>
              (let st2 = st1\<lparr>lp_isSubmitting := True\<rparr>
               in (case loginUser e (lp_email st) (lp_password st) of
                     (Returned data, reqs) \<Rightarrow>
                       (st2\<lparr>lp_isSubmitting := False\<rparr>,
                        map Fetch reqs @ [Login (map_of data ''access_token''), Navigate ''/''])
                   | (Threw t, reqs) \<Rightarrow>
                       (st2\<lparr>lp_error := ''Invalid username or password. Please try again.'',
                            lp_isSubmitting := False\<rparr>,
                        map Fetch reqs)
                   | (Pending, reqs) \<Rightarrow> (st2, map Fetch reqs)))))"

subsection \<open>The registration page (pages/SignUpPage.tsx)\<close>

text \<open>The state cells \<^verbatim>\<open>email\<close>, \<^verbatim>\<open>password\<close>, \<^verbatim>\<open>confirmPassword\<close> and \<^verbatim>\<open>error\<close>.\<close>

record SignUpPage_state =
  su_email :: string
  su_password :: string
  su_confirmPassword :: string
  su_error :: string

text \<open>
  \<^verbatim>\<open>handleSubmit(e)\<close>. The only test made before \<^verbatim>\<open>registerUser\<close> is called is
  \<^verbatim>\<open>password !== confirmPassword\<close>.
\<close>

definition SignUpPage_handleSubmit ::
  "env \<Rightarrow> SignUpPage_state \<Rightarrow> SignUpPage_state \<times> effect list" where
  "SignUpPage_handleSubmit e st =
     (if su_password st \<noteq> su_confirmPassword st then
        (st\<lparr>su_error := ''Passwords do not match''\<rparr>, [])
      else
        (let st1 = st\<lparr>su_error := []\<rparr>
         in (case registerUser e (su_email st) (su_password st) of
               (Returned data, reqs) \<Rightarrow> (st1, map Fetch reqs @ [Navigate ''/login''])
             | (Threw t, reqs) \<Rightarrow>
                 (st1\<lparr>su_error := ''Failed to create account. Email may already be in use.''\<rparr>,
                  map Fetch reqs)
             | (Pending, reqs) \<Rightarrow> (st1, map Fetch reqs))))"

text \<open>
  Surroundings whose authentication service answers every request with status 200 and
  the given JSON object.
\<close>

definition auth_backend :: "(string \<times> string) list \<Rightarrow> env" where
  "auth_backend answer =
     \<lparr>API_URL = ''http://localhost:8000'', AGENT_URL = ''http://localhost:8001'',
      authToken = None,
      fetch = (\<lambda>req. Resolved \<lparr>ok = True, text_of = [], json_of = Some answer,
                                  stream_of = None\<rparr>)\<rparr>"

subsection \<open>A concrete page and backend\<close>

text \<open>
  A selected file, a page state left over from an earlier analysis, and surroundings
  whose report endpoint answers every request with status 200 and a body whose reads so
  far are the given ones.
\<close>

definition requirements_txt :: File where
  "requirements_txt = \<lparr>name = ''requirements.txt'', fsize = 27, ftype = ''text/plain''\<rparr>"

definition page_after_earlier_run :: MainPage_state where
  "page_after_earlier_run =
     \<lparr>projectName = ''TestProject'', mp_file = Some requirements_txt,
      analysisResult = ''## Old report'', isLoading = False, mp_error = Some ''stale''\<rparr>"

definition streaming_backend :: "string option \<Rightarrow> read_result list \<Rightarrow> env" where
  "streaming_backend token reads =
     \<lparr>API_URL = ''http://localhost:8000'', AGENT_URL = ''http://localhost:8001'',
      authToken = token,
      fetch = (\<lambda>req. Resolved \<lparr>ok = True, text_of = [], json_of = None,
                                  stream_of = Some reads\<rparr>)\<rparr>"

section \<open>Properties\<close>

subsection \<open>File validation\<close>

lemma MAX_FILE_SIZE_value: "MAX_FILE_SIZE = 1048576"
  by (simp add: MAX_FILE_SIZE_def)

text \<open>
  Claim C4. For a candidate file the handler tests the MIME type, then the extension,
  then the size, and stops at the first failure: a MIME type other than
  \<^verbatim>\<open>text/plain\<close> gives the MIME reason whatever the name and size are; a right MIME type
  with a name not ending in \<^verbatim>\<open>.txt\<close> gives the extension reason whatever the size is;
  otherwise an oversized file gives the size reason. Every rejection sets exactly that one
  reason, clears the selected file and calls the caller's \<^verbatim>\<open>onChange\<close> once, with
  \<^verbatim>\<open>null\<close>.
\<close>

theorem file_validator_rule_order:
  fixes f :: File and s :: FileUpload_state and onChange :: "'p onChange_prop" and p :: 'p
  defines "r \<equiv> FileUpload_handleFileChange onChange (Some f) (s, p)"
  shows "(ftype f \<noteq> ''text/plain'' \<longrightarrow>
            r = (s\<lparr>fu_error := Some MIME_reason, fu_file := None\<rparr>,
                 call_onChange onChange None p))
       \<and> (ftype f = ''text/plain'' \<and> \<not> endsWith (name f) ''.txt'' \<longrightarrow>
            r = (s\<lparr>fu_error := Some extension_reason, fu_file := None\<rparr>,
                 call_onChange onChange None p))
       \<and> (ftype f = ''text/plain'' \<and> endsWith (name f) ''.txt'' \<and> fsize f > MAX_FILE_SIZE \<longrightarrow>
            r = (s\<lparr>fu_error := Some size_reason, fu_file := None\<rparr>,
                 call_onChange onChange None p))"
  unfolding r_def
  by (simp add: FileUpload_handleFileChange_def MIME_reason_def extension_reason_def
      size_reason_def)

text \<open>
  The three rejections at concrete files, the caller recording its calls: a
  \<^verbatim>\<open>text/html\<close> file named \<^verbatim>\<open>fake.txt\<close>, a \<^verbatim>\<open>text/plain\<close> file named
  \<^verbatim>\<open>data.csv\<close> that is also too large, and a well-named \<^verbatim>\<open>text/plain\<close> file one
  byte over the limit. A file selected before is dropped and the caller hears \<^verbatim>\<open>null\<close>
  once.
\<close>

theorem file_validator_rule_order_witness:
  "FileUpload_handleFileChange (Some record_call)
      (Some \<lparr>name = ''fake.txt'', fsize = 500, ftype = ''text/html''\<rparr>)
      (\<lparr>fu_file = Some \<lparr>name = ''old.txt'', fsize = 1, ftype = ''text/plain''\<rparr>,
        fu_error = None, fu_isDragging = False\<rparr>, [])
     = (\<lparr>fu_file = None, fu_error = Some MIME_reason, fu_isDragging = False\<rparr>, [None])
   \<and> FileUpload_handleFileChange (Some record_call)
      (Some \<lparr>name = ''data.csv'', fsize = 2000000, ftype = ''text/plain''\<rparr>)
      (\<lparr>fu_file = None, fu_error = None, fu_isDragging = False\<rparr>, [])
     = (\<lparr>fu_file = None, fu_error = Some extension_reason, fu_isDragging = False\<rparr>, [None])
   \<and> FileUpload_handleFileChange (Some record_call)
      (Some \<lparr>name = ''requirements.txt'', fsize = 1048577, ftype = ''text/plain''\<rparr>)
      (\<lparr>fu_file = None, fu_error = Some MIME_reason, fu_isDragging = False\<rparr>, [])
     = (\<lparr>fu_file = None, fu_error = Some size_reason, fu_isDragging = False\<rparr>, [None])"
  using
    file_validator_rule_order [where onChange = "Some record_call" and p = "[]"
      and f = "\<lparr>name = ''fake.txt'', fsize = 500, ftype = ''text/html''\<rparr>"
      and s = "\<lparr>fu_file = Some \<lparr>name = ''old.txt'', fsize = 1, ftype = ''text/plain''\<rparr>,
        fu_error = None, fu_isDragging = False\<rparr>"]
    file_validator_rule_order [where onChange = "Some record_call" and p = "[]"
      and f = "\<lparr>name = ''data.csv'', fsize = 2000000, ftype = ''text/plain''\<rparr>"
      and s = "\<lparr>fu_file = None, fu_error = None, fu_isDragging = False\<rparr>"]
    file_validator_rule_order [where onChange = "Some record_call" and p = "[]"
      and f = "\<lparr>name = ''requirements.txt'', fsize = 1048577, ftype = ''text/plain''\<rparr>"
      and s = "\<lparr>fu_file = None, fu_error = Some MIME_reason, fu_isDragging = False\<rparr>"]
  by (simp add: endsWith_def MAX_FILE_SIZE_def call_onChange_def record_call_def)

text \<open>
  Claim C5. For a candidate file with the right MIME type and extension the size rule
  accepts exactly when the byte size is at most the maximum of 1048576 bytes: a larger
  file is rejected with the size reason, and a file of exactly the maximum, or of one byte
  less, is accepted (the error is cleared, the file is selected and the caller is told
  the file).
\<close>

theorem size_rule_boundary:
  fixes f :: File and s :: FileUpload_state and onChange :: "'p onChange_prop" and p :: 'p
  assumes "ftype f = ''text/plain''" and "endsWith (name f) ''.txt''"
  defines "r \<equiv> FileUpload_handleFileChange onChange (Some f) (s, p)"
  defines "accepted \<equiv> (s\<lparr>fu_error := None, fu_file := Some f\<rparr>, call_onChange onChange (Some f) p)"
  defines "rejected \<equiv> (s\<lparr>fu_error := Some size_reason, fu_file := None\<rparr>,
                        call_onChange onChange None p)"
  shows "r = (if fsize f \<le> MAX_FILE_SIZE then accepted else rejected)
       \<and> (fsize f > MAX_FILE_SIZE \<longrightarrow> r = rejected)
       \<and> (fsize f = MAX_FILE_SIZE \<longrightarrow> r = accepted)
       \<and> (fsize f = MAX_FILE_SIZE - 1 \<longrightarrow> r = accepted)"
  using assms(1,2) unfolding r_def accepted_def rejected_def
  by (auto simp add: FileUpload_handleFileChange_def size_reason_def)

text \<open>
  The boundary at concrete files of 1048577, 1048576 and 1048575 bytes, the caller
  recording its calls.
\<close>

theorem size_rule_boundary_witness:
  "FileUpload_handleFileChange (Some record_call)
      (Some \<lparr>name = ''requirements.txt'', fsize = 1048577, ftype = ''text/plain''\<rparr>)
      (\<lparr>fu_file = None, fu_error = None, fu_isDragging = False\<rparr>, [])
     = (\<lparr>fu_file = None, fu_error = Some size_reason, fu_isDragging = False\<rparr>, [None])
   \<and> FileUpload_handleFileChange (Some record_call)
      (Some \<lparr>name = ''requirements.txt'', fsize = 1048576, ftype = ''text/plain''\<rparr>)
      (\<lparr>fu_file = None, fu_error = None, fu_isDragging = False\<rparr>, [])
     = (\<lparr>fu_file = Some \<lparr>name = ''requirements.txt'', fsize = 1048576, ftype = ''text/plain''\<rparr>,
         fu_error = None, fu_isDragging = False\<rparr>,
        [Some \<lparr>name = ''requirements.txt'', fsize = 1048576, ftype = ''text/plain''\<rparr>])
   \<and> FileUpload_handleFileChange (Some record_call)
      (Some \<lparr>name = ''requirements.txt'', fsize = 1048575, ftype = ''text/plain''\<rparr>)
      (\<lparr>fu_file = None, fu_error = None, fu_isDragging = False\<rparr>, [])
     = (\<lparr>fu_file = Some \<lparr>name = ''requirements.txt'', fsize = 1048575, ftype = ''text/plain''\<rparr>,
         fu_error = None, fu_isDragging = False\<rparr>,
        [Some \<lparr>name = ''requirements.txt'', fsize = 1048575, ftype = ''text/plain''\<rparr>])"
proof -
  let ?s = "\<lparr>fu_file = None, fu_error = None, fu_isDragging = False\<rparr>"
  let ?f = "\<lambda>n. \<lparr>name = ''requirements.txt'', fsize = n, ftype = ''text/plain''\<rparr>"
  have ext: "endsWith ''requirements.txt'' ''.txt''"
    by (simp add: endsWith_def)
  have "ftype (?f n) = ''text/plain''" and "endsWith (name (?f n)) ''.txt''" for n
    using ext by simp_all
  note b = size_rule_boundary [OF this, where s = ?s and onChange = "Some record_call"
      and p = "[]"]
  show ?thesis
    using b [of 1048577] b [of 1048576] b [of 1048575]
    by (simp add: MAX_FILE_SIZE_def call_onChange_def record_call_def)
qed

subsection \<open>A cancelled file dialog\<close>

text \<open>
  Claim C10. When the selection handler receives \<^verbatim>\<open>null\<close> (the file list of the input
  event is absent or empty, as after a cancelled dialog) the component's state is left as
  it was (the selected file and the displayed reason stay) and \<^verbatim>\<open>onChange\<close> is not
  called, whatever callback was given; a candidate that is a file makes exactly one call
  of \<^verbatim>\<open>onChange\<close> and replaces the displayed reason by the outcome of its own validation.
\<close>

theorem null_candidate_changes_nothing:
  fixes s s' :: FileUpload_state and onChange :: "'p onChange_prop" and p :: 'p
    and f :: File and calls :: "File option list"
  shows "FileUpload_handleFileChange onChange None (s, p) = (s, p)
       \<and> FileUpload_handleInputChange onChange None (s, p) = (s, p)
       \<and> FileUpload_handleInputChange onChange (Some []) (s, p) = (s, p)
       \<and> snd (FileUpload_handleFileChange (Some record_call) None (s, calls)) = calls
       \<and> length (snd (FileUpload_handleFileChange (Some record_call) (Some f) (s, calls)))
           = Suc (length calls)
       \<and> fu_error (fst (FileUpload_handleFileChange onChange (Some f) (s, p)))
           = fu_error (fst (FileUpload_handleFileChange onChange (Some f) (s', p)))"
  by (simp add: FileUpload_handleFileChange_def FileUpload_handleInputChange_def
      first_file_or_null_def call_onChange_def record_call_def)

text \<open>
  A cancelled dialog after a rejection and after an acceptance: the reason, respectively
  the file, is still there and the recorded calls are the ones made before.
\<close>

theorem null_candidate_changes_nothing_witness:
  "FileUpload_handleInputChange (Some record_call) (Some [])
      (\<lparr>fu_file = None, fu_error = Some extension_reason, fu_isDragging = False\<rparr>, [None])
     = (\<lparr>fu_file = None, fu_error = Some extension_reason, fu_isDragging = False\<rparr>, [None])
   \<and> FileUpload_handleFileChange (Some record_call) None
      (\<lparr>fu_file = Some \<lparr>name = ''requirements.txt'', fsize = 12, ftype = ''text/plain''\<rparr>,
        fu_error = None, fu_isDragging = False\<rparr>,
       [Some \<lparr>name = ''requirements.txt'', fsize = 12, ftype = ''text/plain''\<rparr>])
     = (\<lparr>fu_file = Some \<lparr>name = ''requirements.txt'', fsize = 12, ftype = ''text/plain''\<rparr>,
         fu_error = None, fu_isDragging = False\<rparr>,
        [Some \<lparr>name = ''requirements.txt'', fsize = 12, ftype = ''text/plain''\<rparr>])"
  using
    null_candidate_changes_nothing [where onChange = "Some record_call" and p = "[None]"
      and s = "\<lparr>fu_file = None, fu_error = Some extension_reason, fu_isDragging = False\<rparr>"]
    null_candidate_changes_nothing [where onChange = "Some record_call"
      and s = "\<lparr>fu_file = Some \<lparr>name = ''requirements.txt'', fsize = 12, ftype = ''text/plain''\<rparr>,
        fu_error = None, fu_isDragging = False\<rparr>"
      and p = "[Some \<lparr>name = ''requirements.txt'', fsize = 12, ftype = ''text/plain''\<rparr>]"]
  by simp

subsection \<open>The streamed transcript\<close>

lemma record_chunk_apply: "record_chunk v acc = acc @ [v]"
  by (simp add: record_chunk_def)

text \<open>
  The recording callback collects the fragments of the reads, and how the loop ends does
  not depend on what was recorded before.
\<close>

lemma read_loop_record_chunk:
  "read_loop rs record_chunk acc = (fst (read_loop rs record_chunk []), acc @ fragments rs)"
proof (induction rs arbitrary: acc)
  case Nil
  show ?case by simp
next
  case (Cons r rs)
  show ?case
  proof (cases r)
    case (Chunk v)
    have "read_loop (r # rs) record_chunk acc = read_loop rs record_chunk (acc @ [v])"
      by (simp add: Chunk record_chunk_apply)
    also have "\<dots> = (fst (read_loop rs record_chunk []), (acc @ [v]) @ fragments rs)"
      by (rule Cons.IH)
    finally have *: "read_loop (r # rs) record_chunk acc
        = (fst (read_loop rs record_chunk []), acc @ fragments (r # rs))"
      by (simp add: Chunk)
    have "fst (read_loop (r # rs) record_chunk []) = fst (read_loop rs record_chunk [v])"
      by (simp add: Chunk record_chunk_apply)
    also have "\<dots> = fst (read_loop rs record_chunk [])"
      using Cons.IH [of "[v]"] by simp
    finally show ?thesis using * by simp
  qed simp_all
qed

lemma fragments_record_chunk: "snd (read_loop rs record_chunk []) = fragments rs"
  by (metis read_loop_record_chunk append_Nil snd_conv)

text \<open>
  The page's callback appends the same fragments, in the same order, to the transcript
  it finds; the loop ends as it does for the recording callback.
\<close>

lemma read_loop_append_chunk:
  "read_loop rs append_chunk st =
     (fst (read_loop rs record_chunk []),
      st\<lparr>analysisResult := analysisResult st @ concat (fragments rs)\<rparr>)"
proof (induction rs arbitrary: st)
  case Nil
  show ?case by simp
next
  case (Cons r rs)
  show ?case
  proof (cases r)
    case (Chunk v)
    let ?st = "append_chunk v st"
    have "read_loop (r # rs) append_chunk st = read_loop rs append_chunk ?st"
      by (simp only: Chunk read_loop.simps)
    also have "\<dots> = (fst (read_loop rs record_chunk []),
        ?st\<lparr>analysisResult := analysisResult ?st @ concat (fragments rs)\<rparr>)"
      by (rule Cons.IH)
    also have "?st\<lparr>analysisResult := analysisResult ?st @ concat (fragments rs)\<rparr>
        = st\<lparr>analysisResult := analysisResult st @ concat (fragments (r # rs))\<rparr>"
      by (simp add: Chunk append_chunk_def)
    also have "fst (read_loop rs record_chunk []) = fst (read_loop rs record_chunk [v])"
      using read_loop_record_chunk [of rs "[v]"] by simp
    also have "read_loop rs record_chunk [v] = read_loop (r # rs) record_chunk []"
      by (simp only: Chunk read_loop.simps record_chunk_apply append_Nil)
    finally show ?thesis .
  qed simp_all
qed

text \<open>As more reads are resolved the fragments only grow at the end.\<close>

lemma fragments_grow: "\<exists>later. fragments (rs @ new_reads) = fragments rs @ later"
proof (induction rs)
  case Nil
  show ?case by simp
next
  case (Cons r rs)
  then show ?case by (cases r) simp_all
qed

lemma getAnalysisStream_append_chunk:
  "getAnalysisStream e pn f append_chunk st =
     (stream_outcome e pn f, fst (snd (getAnalysisStream e pn f record_chunk [])),
      st\<lparr>analysisResult := analysisResult st @ concat (delivered e pn f)\<rparr>)"
proof (cases "authToken e")
  case None
  then show ?thesis
    by (simp add: getAnalysisStream_def stream_outcome_def delivered_def)
next
  case (Some token)
  note token = this
  show ?thesis
  proof (cases "token = []")
    case True
    then show ?thesis
      by (simp add: token getAnalysisStream_def stream_outcome_def delivered_def)
  next
    case False
    show ?thesis
    proof (cases "fetch e (analysis_request e token pn f)")
      case (Rejected t)
      then show ?thesis
        by (simp add: token False getAnalysisStream_def stream_outcome_def delivered_def
            Let_def)
    next
      case (Resolved resp)
      show ?thesis
      proof (cases "stream_of resp")
        case None
        then show ?thesis
          by (simp add: token False Resolved getAnalysisStream_def stream_outcome_def
              delivered_def Let_def)
      next
        case (Some reads)
        then show ?thesis
          by (simp add: token False Resolved getAnalysisStream_def stream_outcome_def
              delivered_def read_loop_append_chunk Let_def case_prod_beta
              fragments_record_chunk)
      qed
    qed
  qed
qed

text \<open>
  A submission that passes the guard: the page is put into the loading state with an
  empty transcript, the delivered fragments are appended, and the way the call ends
  decides whether \<^verbatim>\<open>catch\<close> and \<^verbatim>\<open>finally\<close> have run.
\<close>

lemma handleSubmit_started:
  assumes "mp_file st = Some f" and "projectName st \<noteq> []"
  shows "MainPage_handleSubmit e st =
     (let st' = st\<lparr>isLoading := True, mp_error := None,
                    analysisResult := concat (delivered e (projectName st) f)\<rparr>;
          reqs = fst (snd (getAnalysisStream e (projectName st) f record_chunk []))
      in case stream_outcome e (projectName st) f of
           Pending \<Rightarrow> (st', reqs)
         | Returned u \<Rightarrow> (st'\<lparr>isLoading := False\<rparr>, reqs)
         | Threw t \<Rightarrow> (st'\<lparr>mp_error := Some (error_text t), isLoading := False\<rparr>, reqs))"
  using assms
  by (simp add: MainPage_handleSubmit_def getAnalysisStream_append_chunk Let_def
      split: outcome.split)

lemma delivered_fragments:
  assumes "authToken e = Some token" and "token \<noteq> []"
    and "fetch e (analysis_request e token pn f) = Resolved resp"
    and "ok resp" and "stream_of resp = Some reads"
  shows "delivered e pn f = fragments reads"
  using assms
  by (simp add: delivered_def getAnalysisStream_def Let_def case_prod_beta
      fragments_record_chunk)

lemma stream_outcome_failed_read:
  assumes "authToken e = Some token" and "token \<noteq> []"
    and "fetch e (analysis_request e token pn f) = Resolved resp"
    and "ok resp" and "stream_of resp = Some (map Chunk cs @ ReadFailed t # rest)"
  shows "stream_outcome e pn f = Threw t" and "delivered e pn f = cs"
proof -
  have "read_loop (map Chunk cs @ ReadFailed t # rest) record_chunk acc = (Threw t, acc @ cs)"
    for acc
    by (induction cs arbitrary: acc) (simp_all add: record_chunk_apply)
  from this [of "[]"] show "stream_outcome e pn f = Threw t" and "delivered e pn f = cs"
    using assms
    by (simp_all add: stream_outcome_def delivered_def getAnalysisStream_def Let_def)
qed

text \<open>
  When further reads are resolved in the same run, the transcript only grows at its end:
  what was shown stays, in place.
\<close>

lemma transcript_only_grows:
  assumes "mp_file st = Some f" and "projectName st \<noteq> []"
    and "authToken e = Some token" and "token \<noteq> []"
    and "fetch e (analysis_request e token (projectName st) f) = Resolved resp"
    and "ok resp" and "stream_of resp = Some reads"
    and "authToken e' = Some token"
    and "fetch e' (analysis_request e' token (projectName st) f) = Resolved resp'"
    and "ok resp'" and "stream_of resp' = Some (reads @ new_reads)"
  shows "\<exists>later. analysisResult (fst (MainPage_handleSubmit e' st))
           = analysisResult (fst (MainPage_handleSubmit e st)) @ later"
proof -
  have "analysisResult (fst (MainPage_handleSubmit e st)) = concat (fragments reads)"
    using delivered_fragments [OF assms(3-7)]
    by (simp add: handleSubmit_started [OF assms(1,2)] Let_def split: outcome.split)
  moreover
  have "analysisResult (fst (MainPage_handleSubmit e' st))
      = concat (fragments (reads @ new_reads))"
    using delivered_fragments [OF assms(8) assms(4) assms(9-11)]
    by (simp add: handleSubmit_started [OF assms(1,2)] Let_def split: outcome.split)
  moreover obtain later where "fragments (reads @ new_reads) = fragments reads @ later"
    using fragments_grow by blast
  ultimately show ?thesis by simp
qed

lemma requirements_txt_selected: "mp_file page_after_earlier_run = Some requirements_txt"
  and project_named: "projectName page_after_earlier_run \<noteq> []"
  and project_name: "projectName page_after_earlier_run = ''TestProject''"
  by (simp_all add: page_after_earlier_run_def)

lemma streaming_backend_simps:
  "authToken (streaming_backend token reads) = token"
  "AGENT_URL (streaming_backend token reads) = ''http://localhost:8001''"
  "fetch (streaming_backend token reads) req =
     Resolved \<lparr>ok = True, text_of = [], json_of = None, stream_of = Some reads\<rparr>"
  by (simp_all add: streaming_backend_def)

text \<open>
  Claim C1. In every run of a streaming analysis (a submission with a file and a project
  name) the transcript of the page is, at every moment, the concatenation in arrival order
  of the fragments \<^verbatim>\<open>getAnalysisStream\<close> has delivered so far, whatever the transcript
  was before the run started; when the request was sent and answered with a body, these
  are the chunks read from the body so far, each once and in order.
\<close>

theorem transcript_is_fragments_in_arrival_order:
  assumes "mp_file st = Some f" and "projectName st \<noteq> []"
  shows "analysisResult (fst (MainPage_handleSubmit e st))
           = concat (delivered e (projectName st) f)
       \<and> (\<forall>token resp reads.
             authToken e = Some token \<and> token \<noteq> [] \<and>
             fetch e (analysis_request e token (projectName st) f) = Resolved resp \<and>
             ok resp \<and> stream_of resp = Some reads
             \<longrightarrow> analysisResult (fst (MainPage_handleSubmit e st)) = concat (fragments reads))"
proof -
  have "analysisResult (fst (MainPage_handleSubmit e st))
      = concat (delivered e (projectName st) f)"
    by (simp add: handleSubmit_started [OF assms] Let_def split: outcome.split)
  then show ?thesis
    by (auto simp add: delivered_fragments)
qed

text \<open>
  Three chunks have been read and the stream has not ended: the transcript left by the
  earlier run is gone and the three fragments stand in their order.
\<close>

theorem transcript_is_fragments_in_arrival_order_witness:
  "analysisResult (fst (MainPage_handleSubmit
      (streaming_backend (Some ''test-token'')
         [Chunk ''First '', Chunk ''Second '', Chunk ''Third''])
      page_after_earlier_run)) = ''First Second Third''"
proof -
  let ?e = "streaming_backend (Some ''test-token'')
      [Chunk ''First '', Chunk ''Second '', Chunk ''Third'']"
  have "analysisResult (fst (MainPage_handleSubmit ?e page_after_earlier_run))
      = concat (fragments [Chunk ''First '', Chunk ''Second '', Chunk ''Third''])"
    by (rule transcript_is_fragments_in_arrival_order
        [OF requirements_txt_selected project_named, of ?e, THEN conjunct2, rule_format,
          of "''test-token''"
            "\<lparr>ok = True, text_of = [], json_of = None,
              stream_of = Some [Chunk ''First '', Chunk ''Second '', Chunk ''Third'']\<rparr>"])
      (simp add: streaming_backend_simps)
  then show ?thesis by simp
qed

text \<open>
  Claim C2. When the call of \<^verbatim>\<open>getAnalysisStream\<close> throws, the transcript stays the
  concatenation of the fragments delivered before, the error shown is the message of the
  thrown \<^verbatim>\<open>Error\<close> as it is, and the loading flag is lowered; in particular, when a read
  fails after the chunks \<open>cs\<close> the transcript is the concatenation of \<open>cs\<close>.
\<close>

theorem partial_transcript_kept_on_failure:
  assumes "mp_file st = Some f" and "projectName st \<noteq> []"
    and "stream_outcome e (projectName st) f = Threw t"
  shows "analysisResult (fst (MainPage_handleSubmit e st))
           = concat (delivered e (projectName st) f)
       \<and> mp_error (fst (MainPage_handleSubmit e st)) = Some (error_text t)
       \<and> isLoading (fst (MainPage_handleSubmit e st)) = False
       \<and> (\<forall>msg. t = JsError msg \<longrightarrow> mp_error (fst (MainPage_handleSubmit e st)) = Some msg)
       \<and> (\<forall>token resp cs rest.
             authToken e = Some token \<and> token \<noteq> [] \<and>
             fetch e (analysis_request e token (projectName st) f) = Resolved resp \<and>
             ok resp \<and> stream_of resp = Some (map Chunk cs @ ReadFailed t # rest)
             \<longrightarrow> analysisResult (fst (MainPage_handleSubmit e st)) = concat cs)"
proof -
  have *: "analysisResult (fst (MainPage_handleSubmit e st))
        = concat (delivered e (projectName st) f)
      \<and> mp_error (fst (MainPage_handleSubmit e st)) = Some (error_text t)
      \<and> isLoading (fst (MainPage_handleSubmit e st)) = False"
    by (simp add: handleSubmit_started [OF assms(1,2)] assms(3) Let_def)
  moreover have "error_text (JsError msg) = msg" for msg
    by (simp add: error_text_def)
  moreover have "delivered e (projectName st) f = cs"
    if "authToken e = Some token" "token \<noteq> []"
      "fetch e (analysis_request e token (projectName st) f) = Resolved resp"
      "ok resp" "stream_of resp = Some (map Chunk cs @ ReadFailed t # rest)"
    for token resp cs rest
    using that by (rule stream_outcome_failed_read(2))
  ultimately show ?thesis by auto
qed

text \<open>
  The fragments \<^verbatim>\<open>"## Report\n"\<close> and \<^verbatim>\<open>"Line 2"\<close>, then a read that fails with the
  error \<^verbatim>\<open>"boom"\<close>.
\<close>

theorem partial_transcript_kept_on_failure_witness:
  "analysisResult (fst (MainPage_handleSubmit
      (streaming_backend (Some ''test-token'')
         [Chunk ''## Report\<newline>'', Chunk ''Line 2'', ReadFailed (JsError ''boom'')])
      page_after_earlier_run)) = ''## Report\<newline>Line 2''
   \<and> mp_error (fst (MainPage_handleSubmit
      (streaming_backend (Some ''test-token'')
         [Chunk ''## Report\<newline>'', Chunk ''Line 2'', ReadFailed (JsError ''boom'')])
      page_after_earlier_run)) = Some ''boom''
   \<and> isLoading (fst (MainPage_handleSubmit
      (streaming_backend (Some ''test-token'')
         [Chunk ''## Report\<newline>'', Chunk ''Line 2'', ReadFailed (JsError ''boom'')])
      page_after_earlier_run)) = False"
proof -
  let ?e = "streaming_backend (Some ''test-token'')
      [Chunk ''## Report\<newline>'', Chunk ''Line 2'', ReadFailed (JsError ''boom'')]"
  have reads: "stream_of \<lparr>ok = True, text_of = [], json_of = None,
      stream_of = Some [Chunk ''## Report\<newline>'', Chunk ''Line 2'',
        ReadFailed (JsError ''boom'')]\<rparr>
    = Some (map Chunk [''## Report\<newline>'', ''Line 2''] @ ReadFailed (JsError ''boom'') # [])"
    by simp
  have threw: "stream_outcome ?e (projectName page_after_earlier_run) requirements_txt
      = Threw (JsError ''boom'')"
    and frags: "delivered ?e (projectName page_after_earlier_run) requirements_txt
      = [''## Report\<newline>'', ''Line 2'']"
    using stream_outcome_failed_read [of ?e "''test-token''" _ _ _ _ _ "[]", OF _ _ _ _ reads]
    by (simp_all add: streaming_backend_simps)
  show ?thesis
    using partial_transcript_kept_on_failure
      [OF requirements_txt_selected project_named threw]
    by (simp add: frags error_text_def)
qed

subsection \<open>The missing session\<close>

text \<open>
  Claim C3. When local storage holds no session token (\<^verbatim>\<open>getItem\<close> gives \<^verbatim>\<open>null\<close>, or
  the empty string, which \<^verbatim>\<open>!token\<close> treats alike) \<^verbatim>\<open>getAnalysisStream\<close> throws the
  missing-session error at once: no request is sent and the callback is not called. When
  a token is there, exactly one request is sent and its \<^verbatim>\<open>Authorization\<close> header is
  \<^verbatim>\<open>Bearer\<close> followed by that token.
\<close>

theorem missing_session_sends_nothing:
  fixes e :: env and onChunk :: "string \<Rightarrow> 's \<Rightarrow> 's"
  defines "missing \<equiv> JsError ''Not authenticated. Please log in.''"
  shows "(authToken e = None \<longrightarrow> getAnalysisStream e pn f onChunk s = (Threw missing, [], s))
       \<and> (authToken e = Some [] \<longrightarrow> getAnalysisStream e pn f onChunk s = (Threw missing, [], s))
       \<and> (\<forall>token. authToken e = Some token \<and> token \<noteq> [] \<longrightarrow>
             fst (snd (getAnalysisStream e pn f onChunk s)) = [analysis_request e token pn f]
           \<and> map_of (headers (analysis_request e token pn f)) ''Authorization''
               = Some (''Bearer '' @ token))"
  unfolding missing_def
  by (simp add: getAnalysisStream_def analysis_request_def Let_def case_prod_beta
      split: fetch_result.split option.split)

text \<open>
  Without a token nothing is sent although the backend would answer; with the token
  \<^verbatim>\<open>test-token\<close> the one request carries \<^verbatim>\<open>Bearer test-token\<close>.
\<close>

theorem missing_session_sends_nothing_witness:
  "getAnalysisStream (streaming_backend None [Chunk ''never read'', Done]) ''TestProject''
      requirements_txt record_chunk []
     = (Threw (JsError ''Not authenticated. Please log in.''), [], [])
   \<and> fst (snd (getAnalysisStream (streaming_backend (Some ''test-token'') [Chunk ''x'', Done])
      ''TestProject'' requirements_txt record_chunk []))
     = [\<lparr>url = ''http://localhost:8001/generate/report'', http_method = ''POST'',
         headers = [(''Authorization'', ''Bearer test-token''), (''Accept'', ''text/plain'')],
         body = Multipart [(''project_name'', Text ''TestProject''),
                           (''requirements_file'', FileValue requirements_txt)]\<rparr>]"
proof -
  have "getAnalysisStream (streaming_backend None [Chunk ''never read'', Done]) ''TestProject''
      requirements_txt record_chunk []
     = (Threw (JsError ''Not authenticated. Please log in.''), [], [])"
    by (rule missing_session_sends_nothing [THEN conjunct1, rule_format])
      (simp add: streaming_backend_simps)
  moreover have "fst (snd (getAnalysisStream
      (streaming_backend (Some ''test-token'') [Chunk ''x'', Done])
      ''TestProject'' requirements_txt record_chunk []))
     = [analysis_request (streaming_backend (Some ''test-token'') [Chunk ''x'', Done])
          ''test-token'' ''TestProject'' requirements_txt]"
    by (rule missing_session_sends_nothing [THEN conjunct2, THEN conjunct2, rule_format,
          THEN conjunct1])
      (simp add: streaming_backend_simps)
  ultimately show ?thesis
    by (simp add: analysis_request_def streaming_backend_simps)
qed

subsection \<open>Selecting a file on the analysis page\<close>

text \<open>
  Claim C9, as the code has it. Selecting a file on the analysis page empties the
  transcript and clears the error whatever the state was, and leaves the loading flag and
  the project name as they were: the page is idle afterwards when no submission is in
  flight (it was idle, finished or failed), and shows the waiting panel of a submission
  without data when one is in flight, since nothing cancels the running call. For every
  candidate file, accepted or rejected by FileUpload, the reset is made by the same
  \<^verbatim>\<open>onChange\<close> call that hands the page the outcome of the validation (the file, or
  \<^verbatim>\<open>null\<close>).
\<close>

theorem file_change_resets_transcript_and_error:
  fixes st :: MainPage_state and sel :: "File option"
  defines "st' \<equiv> MainPage_handleFileChange sel st"
  shows "analysisResult st' = [] \<and> mp_error st' = None \<and> mp_file st' = sel
       \<and> isLoading st' = isLoading st \<and> projectName st' = projectName st
       \<and> phase_of st' = (if isLoading st then Submitting_no_data_yet else Idle)
       \<and> (\<forall>c s. case FileUpload_handleFileChange (Some MainPage_handleFileChange) (Some c) (s, st)
                 of (s', st'') \<Rightarrow>
                   analysisResult st'' = [] \<and> mp_error st'' = None \<and> mp_file st'' = fu_file s'
                 \<and> isLoading st'' = isLoading st \<and> projectName st'' = projectName st)"
  unfolding st'_def
  by (simp add: MainPage_handleFileChange_def phase_of_def FileUpload_handleFileChange_def
      call_onChange_def)

text \<open>
  After a failed run (a transcript and an error are shown, nothing is loading) a file with
  the wrong extension is chosen: FileUpload rejects it, and the page is idle with no file.
\<close>

theorem file_change_resets_transcript_and_error_witness:
  "FileUpload_handleFileChange (Some MainPage_handleFileChange)
      (Some \<lparr>name = ''requirements2.csv'', fsize = 27, ftype = ''text/plain''\<rparr>)
      (\<lparr>fu_file = None, fu_error = None, fu_isDragging = False\<rparr>, page_after_earlier_run)
     = (\<lparr>fu_file = None, fu_error = Some extension_reason, fu_isDragging = False\<rparr>,
        \<lparr>projectName = ''TestProject'', mp_file = None, analysisResult = [],
         isLoading = False, mp_error = None\<rparr>)
   \<and> phase_of (MainPage_handleFileChange None page_after_earlier_run) = Idle"
proof -
  let ?c = "\<lparr>name = ''requirements2.csv'', fsize = 27, ftype = ''text/plain''\<rparr>"
  let ?s = "\<lparr>fu_file = None, fu_error = None, fu_isDragging = False\<rparr>"
  note reset = file_change_resets_transcript_and_error [of None page_after_earlier_run]
  have "FileUpload_handleFileChange (Some MainPage_handleFileChange) (Some ?c)
      (?s, page_after_earlier_run)
    = (?s\<lparr>fu_error := Some extension_reason, fu_file := None\<rparr>,
       MainPage_handleFileChange None page_after_earlier_run)"
    by (simp add: FileUpload_handleFileChange_def call_onChange_def endsWith_def
        extension_reason_def)
  moreover have "MainPage_handleFileChange None page_after_earlier_run
    = \<lparr>projectName = ''TestProject'', mp_file = None, analysisResult = [],
       isLoading = False, mp_error = None\<rparr>"
    using reset by (cases "MainPage_handleFileChange None page_after_earlier_run")
      (simp add: page_after_earlier_run_def)
  moreover have "phase_of (MainPage_handleFileChange None page_after_earlier_run) = Idle"
    using reset by (simp add: page_after_earlier_run_def)
  ultimately show ?thesis by simp
qed

text \<open>
  The claim as it was stated fails while a report is streaming. One chunk has been read
  and the stream has not ended, so the page is loading with a partial transcript; a second
  file is chosen: the transcript is emptied, but the page is still loading and is not
  idle.
\<close>

theorem file_change_while_streaming_counterexample:
  "fst (MainPage_handleSubmit (streaming_backend (Some ''test-token'') [Chunk ''## Report''])
      page_after_earlier_run)
     = \<lparr>projectName = ''TestProject'', mp_file = Some requirements_txt,
        analysisResult = ''## Report'', isLoading = True, mp_error = None\<rparr>
   \<and> phase_of \<lparr>projectName = ''TestProject'', mp_file = Some requirements_txt,
        analysisResult = ''## Report'', isLoading = True, mp_error = None\<rparr>
     = Streaming_with_partial_data
   \<and> phase_of (MainPage_handleFileChange
        (Some \<lparr>name = ''requirements2.txt'', fsize = 27, ftype = ''text/plain''\<rparr>)
        \<lparr>projectName = ''TestProject'', mp_file = Some requirements_txt,
         analysisResult = ''## Report'', isLoading = True, mp_error = None\<rparr>)
     \<noteq> Idle"
proof -
  let ?e = "streaming_backend (Some ''test-token'') [Chunk ''## Report'']"
  have "delivered ?e ''TestProject'' requirements_txt = [''## Report'']"
    and "stream_outcome ?e ''TestProject'' requirements_txt = Pending"
    and "fst (snd (getAnalysisStream ?e ''TestProject'' requirements_txt record_chunk [])) =
      [analysis_request ?e ''test-token'' ''TestProject'' requirements_txt]"
    by (simp_all add: delivered_def stream_outcome_def getAnalysisStream_def Let_def
        streaming_backend_simps record_chunk_apply)
  then have "fst (MainPage_handleSubmit ?e page_after_earlier_run)
     = \<lparr>projectName = ''TestProject'', mp_file = Some requirements_txt,
        analysisResult = ''## Report'', isLoading = True, mp_error = None\<rparr>"
    by (simp add: handleSubmit_started [OF requirements_txt_selected project_named]
        project_name Let_def)
      (simp add: page_after_earlier_run_def)
  then show ?thesis
    by (simp add: MainPage_handleFileChange_def phase_of_def)
qed

subsection \<open>Local validation before the network\<close>

lemma username_issues:
  "run_checks usernameSchema pth u issues =
     (trim u,
      if length u < 4 then
        issues @ [\<lparr>path = pth, message = ''Username must be at least 4 characters.''\<rparr>]
      else if length u > 100 then
        issues @ [\<lparr>path = pth, message = ''Username must not exceed 100 characters.''\<rparr>]
      else issues)"
  by (simp add: usernameSchema_def)

lemma password_issues:
  "run_checks passwordSchema pth p issues =
     (p, if length p < 4 then
           issues @ [\<lparr>path = pth, message = ''Password must be at least 4 characters.''\<rparr>]
         else issues)"
  by (simp add: passwordSchema_def)

text \<open>The login schema accepts exactly the fields whose lengths, as typed, are in range.\<close>

lemma loginSchema_success:
  "(\<exists>parsed. loginSchema_safeParse u p = Inr parsed)
     \<longleftrightarrow> 4 \<le> length u \<and> length u \<le> 100 \<and> 4 \<le> length p"
  by (auto simp add: loginSchema_safeParse_def username_issues password_issues)

lemma loginUser_requests: "snd (loginUser e u p) = [loginUser_request e u p]"
  by (simp add: loginUser_def Let_def split: fetch_result.split option.split)

lemma registerUser_requests: "snd (registerUser e u p) = [registerUser_request e u p]"
  by (simp add: registerUser_def Let_def split: fetch_result.split option.split)

lemma network_calls_Fetch: "network_calls (map Fetch rs) = rs"
  by (induction rs) (simp_all add: network_calls_def)

lemma network_calls_simps:
  "network_calls [] = []"
  "network_calls (Fetch r # effects) = r # network_calls effects"
  "network_calls (Login tok # effects) = network_calls effects"
  "network_calls (Navigate u # effects) = network_calls effects"
  "network_calls (xs @ ys) = network_calls xs @ network_calls ys"
  by (simp_all add: network_calls_def)

text \<open>
  The login page sends its one request exactly when both fields pass the schema, and
  nothing otherwise.
\<close>

lemma login_network_calls:
  "network_calls (snd (LoginPage_handleSubmit e st)) =
     (if 4 \<le> length (lp_email st) \<and> length (lp_email st) \<le> 100 \<and> 4 \<le> length (lp_password st)
      then [loginUser_request e (lp_email st) (lp_password st)] else [])"
proof (cases "loginUser e (lp_email st) (lp_password st)")
  case (Pair out reqs)
  then have "reqs = [loginUser_request e (lp_email st) (lp_password st)]"
    using loginUser_requests [of e "lp_email st" "lp_password st"] by simp
  with Pair show ?thesis
    by (cases out)
      (auto simp add: LoginPage_handleSubmit_def loginSchema_safeParse_def username_issues
        password_issues Let_def network_calls_simps network_calls_Fetch split: list.split)
qed

text \<open>
  The registration page sends its request exactly when the password and its confirmation
  are equal; the lengths of the fields play no part.
\<close>

lemma signup_network_calls:
  "network_calls (snd (SignUpPage_handleSubmit e st)) =
     (if su_password st = su_confirmPassword st
      then [registerUser_request e (su_email st) (su_password st)] else [])"
proof (cases "su_password st = su_confirmPassword st")
  case False
  then show ?thesis
    by (simp add: SignUpPage_handleSubmit_def network_calls_simps)
next
  case True
  obtain out reqs where r: "registerUser e (su_email st) (su_password st) = (out, reqs)"
    by force
  then have reqs: "reqs = [registerUser_request e (su_email st) (su_password st)]"
    using registerUser_requests [of e "su_email st" "su_password st"] by simp
  have "SignUpPage_handleSubmit e st =
      (case (out, reqs) of
         (Returned data, reqs) \<Rightarrow> (st\<lparr>su_error := []\<rparr>, map Fetch reqs @ [Navigate ''/login''])
       | (Threw t, reqs) \<Rightarrow>
           (st\<lparr>su_error := ''Failed to create account. Email may already be in use.''\<rparr>,
            map Fetch reqs)
       | (Pending, reqs) \<Rightarrow> (st\<lparr>su_error := []\<rparr>, map Fetch reqs))"
    unfolding SignUpPage_handleSubmit_def Let_def r [symmetric]
    by (simp add: True split: prod.split outcome.split)
  then show ?thesis
    by (cases out) (simp_all add: True reqs network_calls_simps network_calls_Fetch)
qed

text \<open>
  The identifier rule of the login form as the schema applies it: a length within 4 and
  100 of the identifier as typed, since the length checks come before \<^verbatim>\<open>trim\<close> in the
  schema's chain. An identifier shorter than 4 as typed blocks the submission with the
  identifier's length message and nothing is sent; an identifier of length exactly 4
  passes the rule.
\<close>

lemma identifier_rule_as_typed:
  "(length (lp_email st) < 4 \<longrightarrow>
      LoginPage_handleSubmit e st
        = (st\<lparr>lp_error := ''Username must be at least 4 characters.''\<rparr>, [])
    \<and> network_calls (snd (LoginPage_handleSubmit e st)) = [])
   \<and> (length u = 4 \<longrightarrow> snd (run_checks usernameSchema [''username''] u []) = [])
   \<and> (snd (run_checks usernameSchema [''username''] u []) = []
        \<longleftrightarrow> 4 \<le> length u \<and> length u \<le> 100)"
  by (simp add: LoginPage_handleSubmit_def loginSchema_safeParse_def username_issues
      password_issues Let_def network_calls_simps)

text \<open>
  Claim C7 asks that every identifier whose trimmed length is below 4 blocks the login
  submission without a network call. The schema does call \<^verbatim>\<open>trim\<close>, but after the
  length checks, so the claim fails for an identifier padded with white space: the
  identifier \<^verbatim>\<open>"ab  "\<close> has two characters after trimming, yet the submission is not
  blocked; the token request is sent with the identifier as typed, and the page logs in
  and navigates.
\<close>

theorem padded_identifier_passes_length_rule:
  "length (trim ''ab  '') = 2
   \<and> LoginPage_handleSubmit (auth_backend [(''access_token'', ''tok-1'')])
      \<lparr>lp_email = ''ab  '', lp_password = ''password123'', lp_error = [],
       lp_isSubmitting = False\<rparr>
     = (\<lparr>lp_email = ''ab  '', lp_password = ''password123'', lp_error = [],
         lp_isSubmitting = False\<rparr>,
        [Fetch \<lparr>url = ''http://localhost:8000/users/token'', http_method = ''POST'',
                 headers = [],
                 body = UrlEncoded [(''username'', ''ab  ''), (''password'', ''password123'')]\<rparr>,
         Login (Some ''tok-1''), Navigate ''/''])"
  by (simp add: trim_def isWhiteSpace_def LoginPage_handleSubmit_def
      loginSchema_safeParse_def username_issues password_issues Let_def loginUser_def
      loginUser_request_def auth_backend_def)

text \<open>
  Claim C8. Whenever the password and its confirmation differ, the registration page
  shows the mismatch message and sends nothing, whatever the lengths of the two strings
  and whatever the identifier is.
\<close>

theorem mismatch_blocks_registration:
  assumes "su_password st \<noteq> su_confirmPassword st"
  shows "SignUpPage_handleSubmit e st = (st\<lparr>su_error := ''Passwords do not match''\<rparr>, [])
       \<and> network_calls (snd (SignUpPage_handleSubmit e st)) = []"
  using assms by (simp add: SignUpPage_handleSubmit_def network_calls_simps)

text \<open>Two different passwords, each long enough for the length rule.\<close>

theorem mismatch_blocks_registration_witness:
  "4 \<le> length ''password123'' \<and> 4 \<le> length ''password456''
   \<and> SignUpPage_handleSubmit (auth_backend [(''id'', ''1'')])
      \<lparr>su_email = ''test@example.com'', su_password = ''password123'',
       su_confirmPassword = ''password456'', su_error = []\<rparr>
     = (\<lparr>su_email = ''test@example.com'', su_password = ''password123'',
         su_confirmPassword = ''password456'', su_error = ''Passwords do not match''\<rparr>, [])"
proof -
  have "su_password \<lparr>su_email = ''test@example.com'', su_password = ''password123'',
       su_confirmPassword = ''password456'', su_error = []\<rparr>
     \<noteq> su_confirmPassword \<lparr>su_email = ''test@example.com'', su_password = ''password123'',
       su_confirmPassword = ''password456'', su_error = []\<rparr>"
    by simp
  from mismatch_blocks_registration [OF this, of "auth_backend [(''id'', ''1'')]"]
  show ?thesis by simp
qed

text \<open>
  Claim C6 at the registration page. With the password \<^verbatim>\<open>abc\<close>, equal to its
  confirmation, the sign-up schema of \<^verbatim>\<open>lib/validators.ts\<close> reports the password's
  length, and the login page sends nothing for the same two fields; the registration page
  sends the request all the same, because its handler does not consult the schema.
\<close>

theorem registration_sends_short_password:
  "network_calls (snd (SignUpPage_handleSubmit e
      \<lparr>su_email = ''test@example.com'', su_password = ''abc'', su_confirmPassword = ''abc'',
       su_error = []\<rparr>))
     = [\<lparr>url = API_URL e @ ''/users'', http_method = ''POST'',
         headers = [(''Content-Type'', ''application/json'')],
         body = Json [(''username'', ''test@example.com''), (''password'', ''abc'')]\<rparr>]
   \<and> signUpSchema_safeParse ''test@example.com'' ''abc'' ''abc''
     = Inl [\<lparr>path = [''password''], message = ''Password must be at least 4 characters.''\<rparr>,
            \<lparr>path = [''confirmPassword''],
             message = ''Password must be at least 4 characters.''\<rparr>]
   \<and> LoginPage_handleSubmit e
      \<lparr>lp_email = ''test@example.com'', lp_password = ''abc'', lp_error = [],
       lp_isSubmitting = False\<rparr>
     = (\<lparr>lp_email = ''test@example.com'', lp_password = ''abc'',
         lp_error = ''Password must be at least 4 characters.'', lp_isSubmitting = False\<rparr>, [])"
  by (simp add: signup_network_calls registerUser_request_def signUpSchema_safeParse_def
      username_issues password_issues LoginPage_handleSubmit_def loginSchema_safeParse_def
      Let_def)

end
